theory Spec2Isabelle
  imports Complex_Main
begin

section \<open>Python floats\<close>

text \<open>
  A Python \<open>float\<close> is a finite number, one of the two infinities, or NaN. Finite
  values are idealised as reals: rounding to 53 bits and overflow of finite arithmetic
  are not modelled. The special values are kept, because \<open>float("nan")\<close>,
  \<open>float("inf")\<close> and an empty table cell (which the table reader delivers as NaN)
  all reach the utility functions, and Python's \<open>min\<close> and \<open>max\<close> treat NaN by
  comparison order.
\<close>

datatype pyfloat = Fin real | PInf | NInf | NaN

fun fneg :: "pyfloat \<Rightarrow> pyfloat" where
  "fneg (Fin a) = Fin (- a)"
| "fneg PInf = NInf"
| "fneg NInf = PInf"
| "fneg NaN = NaN"

fun fadd :: "pyfloat \<Rightarrow> pyfloat \<Rightarrow> pyfloat" where
  "fadd (Fin a) (Fin b) = Fin (a + b)"
| "fadd NaN y = NaN"
| "fadd x NaN = NaN"
| "fadd PInf NInf = NaN"
| "fadd NInf PInf = NaN"
| "fadd PInf y = PInf"
| "fadd x PInf = PInf"
| "fadd NInf y = NInf"
| "fadd x NInf = NInf"

definition fsub :: "pyfloat \<Rightarrow> pyfloat \<Rightarrow> pyfloat" where
  "fsub x y = fadd x (fneg y)"

fun fsgn :: "pyfloat \<Rightarrow> real" where
  "fsgn (Fin a) = sgn a"
| "fsgn PInf = 1"
| "fsgn NInf = - 1"
| "fsgn NaN = 0"

text \<open>An infinity times a value of sign \<open>s\<close>: NaN when the other factor is zero.\<close>

definition inf_times :: "real \<Rightarrow> pyfloat" where
  "inf_times s = (if s = 0 then NaN else if 0 < s then PInf else NInf)"

fun fmul :: "pyfloat \<Rightarrow> pyfloat \<Rightarrow> pyfloat" where
  "fmul (Fin a) (Fin b) = Fin (a * b)"
| "fmul NaN y = NaN"
| "fmul x NaN = NaN"
| "fmul PInf y = inf_times (fsgn y)"
| "fmul NInf y = inf_times (- fsgn y)"
| "fmul x PInf = inf_times (fsgn x)"
| "fmul x NInf = inf_times (- fsgn x)"

text \<open>
  Division by a finite non-zero literal \<open>d\<close>: the source divides only by \<open>4.0\<close> and
  \<open>2.0\<close>, so Python's ZeroDivisionError cannot arise at these call sites.
\<close>

fun fdiv :: "pyfloat \<Rightarrow> real \<Rightarrow> pyfloat" where
  "fdiv (Fin a) d = Fin (a / d)"
| "fdiv PInf d = (if 0 < d then PInf else NInf)"
| "fdiv NInf d = (if 0 < d then NInf else PInf)"
| "fdiv NaN d = NaN"

fun fabs :: "pyfloat \<Rightarrow> pyfloat" where
  "fabs (Fin a) = Fin \<bar>a\<bar>"
| "fabs PInf = PInf"
| "fabs NInf = PInf"
| "fabs NaN = NaN"

text \<open>Python's \<open><\<close> on floats: every comparison with NaN is false.\<close>

fun flt :: "pyfloat \<Rightarrow> pyfloat \<Rightarrow> bool" where
  "flt (Fin a) (Fin b) = (a < b)"
| "flt NaN y = False"
| "flt x NaN = False"
| "flt x NInf = False"
| "flt PInf y = False"
| "flt NInf y = True"
| "flt x PInf = True"

text \<open>Python's \<open><=\<close> on floats.\<close>

fun fle :: "pyfloat \<Rightarrow> pyfloat \<Rightarrow> bool" where
  "fle (Fin a) (Fin b) = (a \<le> b)"
| "fle NaN y = False"
| "fle x NaN = False"
| "fle NInf y = True"
| "fle x PInf = True"
| "fle x NInf = False"
| "fle PInf y = False"

text \<open>
  The builtins \<open>min(a, b)\<close> and \<open>max(a, b)\<close> keep the first argument unless the
  second is strictly smaller (strictly larger): \<open>min(1.0, nan)\<close> is \<open>1.0\<close>.
\<close>

definition py_min :: "pyfloat \<Rightarrow> pyfloat \<Rightarrow> pyfloat" where
  "py_min a b = (if flt b a then b else a)"

definition py_max :: "pyfloat \<Rightarrow> pyfloat \<Rightarrow> pyfloat" where
  "py_max a b = (if flt a b then b else a)"

section \<open>Strings\<close>

text \<open>
  Strings are lists of 8-bit characters. Case mapping, white space and digits are
  those of ASCII; a character outside ASCII is left unchanged and is neither white
  space nor a digit (Python's treatment of further Unicode code points is not
  modelled).
\<close>

definition ascii_lowercase :: string where
  "ascii_lowercase = ''abcdefghijklmnopqrstuvwxyz''"

definition ascii_uppercase :: string where
  "ascii_uppercase = ''ABCDEFGHIJKLMNOPQRSTUVWXYZ''"

definition upper_char :: "char \<Rightarrow> char" where
  "upper_char c = (case map_of (zip ascii_lowercase ascii_uppercase) c of
                     Some d \<Rightarrow> d | None \<Rightarrow> c)"

definition lower_char :: "char \<Rightarrow> char" where
  "lower_char c = (case map_of (zip ascii_uppercase ascii_lowercase) c of
                     Some d \<Rightarrow> d | None \<Rightarrow> c)"

definition upper :: "string \<Rightarrow> string" where
  "upper s = map upper_char s"

definition lower :: "string \<Rightarrow> string" where
  "lower s = map lower_char s"

text \<open>
  \<open>str.strip()\<close> removes the characters for which \<open>str.isspace\<close> holds: among ASCII,
  the codes 9 to 13 and 28 to 32.
\<close>

definition isspace :: "char \<Rightarrow> bool" where
  "isspace c = (let n = (of_char c :: nat) in (9 \<le> n \<and> n \<le> 13) \<or> (28 \<le> n \<and> n \<le> 32))"

definition strip :: "string \<Rightarrow> string" where
  "strip s = rev (dropWhile isspace (rev (dropWhile isspace s)))"

text \<open>The operator \<open>pat in s\<close> on strings: \<open>pat\<close> occurs in \<open>s\<close> as a contiguous block.\<close>

fun py_in :: "string \<Rightarrow> string \<Rightarrow> bool" where
  "py_in pat [] = (pat = [])"
| "py_in pat (c # cs) = (take (length pat) (c # cs) = pat \<or> py_in pat cs)"

section \<open>Raw cell values and the builtins \<open>str\<close> and \<open>float\<close>\<close>

text \<open>
  What \<open>row.get(column)\<close> can hand to a utility function: \<open>None\<close> (the column is
  missing), a text cell, an integer cell, a float cell (NaN for an empty cell) or a
  boolean cell. Column labels are taken to be unique within a table, so that
  \<open>row.get\<close> returns one cell.
\<close>

datatype raw = Absent | Text string | Whole int | Number pyfloat | Flag bool

definition digit_chars :: string where
  "digit_chars = ''0123456789''"

fun digits_of :: "nat \<Rightarrow> string" where
  "digits_of n = (if n < 10 then [digit_chars ! n]
                  else digits_of (n div 10) @ [digit_chars ! (n mod 10)])"

definition str_int :: "int \<Rightarrow> string" where
  "str_int i = (if i < 0 then CHR ''-'' # digits_of (nat (- i)) else digits_of (nat i))"

text \<open>
  \<open>str(v)\<close>. The decimal text that Python prints for a finite float is produced by the
  interpreter's shortest-repr algorithm, which lies outside the repository: it is the
  parameter \<open>repr\<close>, and every result below holds for every choice of it.
  An integer cell is a 64-bit integer of the table reader, so the interpreter's limit
  on \<open>str\<close> of an integer of more than 4300 digits (a ValueError) is out of reach,
  and \<open>str\<close> is modelled as total.
\<close>

fun py_str :: "(real \<Rightarrow> string) \<Rightarrow> raw \<Rightarrow> string" where
  "py_str repr Absent = ''None''"
| "py_str repr (Text s) = s"
| "py_str repr (Whole i) = str_int i"
| "py_str repr (Number (Fin a)) = repr a"
| "py_str repr (Number PInf) = ''inf''"
| "py_str repr (Number NInf) = ''-inf''"
| "py_str repr (Number NaN) = ''nan''"
| "py_str repr (Flag b) = (if b then ''True'' else ''False'')"

datatype py_error = TypeError | ValueError | OverflowError

definition isdigit :: "char \<Rightarrow> bool" where
  "isdigit c = (c \<in> set digit_chars)"

definition digit_value :: "char \<Rightarrow> nat" where
  "digit_value c = (case map_of (zip digit_chars [0..<10]) c of Some d \<Rightarrow> d | None \<Rightarrow> 0)"

text \<open>
  A digit part of a float literal: digits, with single underscores allowed between
  two digits (\<open>1_000\<close>), never leading, trailing or doubled.
\<close>

fun digitpart :: "string \<Rightarrow> bool" where
  "digitpart [] = False"
| "digitpart [c] = isdigit c"
| "digitpart (c # d # cs) =
     (isdigit c \<and> (if d = CHR ''_'' then digitpart cs else digitpart (d # cs)))"

definition digits_value :: "string \<Rightarrow> nat" where
  "digits_value ds = foldl (\<lambda>n c. 10 * n + digit_value c) 0 (filter isdigit ds)"

definition digit_or_underscore :: "char \<Rightarrow> bool" where
  "digit_or_underscore c = (isdigit c \<or> c = CHR ''_'')"

text \<open>The exponent of a float literal, after the \<open>e\<close>: an optional sign and a digit part.\<close>

definition parse_exponent :: "string \<Rightarrow> int option" where
  "parse_exponent s =
     (case s of
        [] \<Rightarrow> None
      | c # cs \<Rightarrow>
          if c = CHR ''-'' then (if digitpart cs then Some (- int (digits_value cs)) else None)
          else if c = CHR ''+'' then (if digitpart cs then Some (int (digits_value cs)) else None)
          else if digitpart s then Some (int (digits_value s)) else None)"

definition scale10 :: "real \<Rightarrow> int \<Rightarrow> real" where
  "scale10 m e = (if e < 0 then m / 10 ^ nat (- e) else m * 10 ^ nat e)"

text \<open>
  An unsigned decimal literal: \<open>[digitpart] "." digitpart | digitpart ["."]\<close>, then an
  optional exponent. The value is the exact decimal number.
\<close>

definition parse_decimal :: "string \<Rightarrow> real option" where
  "parse_decimal s =
     (let ip = takeWhile digit_or_underscore s;
          r1 = dropWhile digit_or_underscore s;
          dot = (r1 \<noteq> [] \<and> hd r1 = CHR ''.'');
          fp = (if dot then takeWhile digit_or_underscore (tl r1) else []);
          r2 = (if dot then dropWhile digit_or_underscore (tl r1) else r1);
          mantissa_ok = ((digitpart ip \<and> (fp = [] \<or> digitpart fp))
                         \<or> (ip = [] \<and> dot \<and> digitpart fp));
          m = real (digits_value ip)
              + real (digits_value fp) / 10 ^ length (filter isdigit fp)
      in if \<not> mantissa_ok then None
         else if r2 = [] then Some m
         else if lower_char (hd r2) = CHR ''e'' then
           (case parse_exponent (tl r2) of None \<Rightarrow> None | Some e \<Rightarrow> Some (scale10 m e))
         else None)"

text \<open>The unsigned part of a float string: an infinity, a NaN or a decimal literal.\<close>

definition parse_unsigned :: "string \<Rightarrow> pyfloat option" where
  "parse_unsigned s =
     (if lower s = ''inf'' \<or> lower s = ''infinity'' then Some PInf
      else if lower s = ''nan'' then Some NaN
      else map_option Fin (parse_decimal s))"

text \<open>
  \<open>float(s)\<close> on a string skips leading and trailing white space (for an ASCII string
  the codes 9 to 13 and 32) and takes one optional sign.
\<close>

definition float_space :: "char \<Rightarrow> bool" where
  "float_space c = (let n = (of_char c :: nat) in (9 \<le> n \<and> n \<le> 13) \<or> n = 32)"

definition float_of_string :: "string \<Rightarrow> py_error + pyfloat" where
  "float_of_string s =
     (let t = rev (dropWhile float_space (rev (dropWhile float_space s)));
          neg = (t \<noteq> [] \<and> hd t = CHR ''-'');
          signed = (t \<noteq> [] \<and> (hd t = CHR ''-'' \<or> hd t = CHR ''+''));
          body = (if signed then tl t else t)
      in case parse_unsigned body of
           None \<Rightarrow> Inl ValueError
         | Some x \<Rightarrow> Inr (if neg then fneg x else x))"

text \<open>
  \<open>float(v)\<close>: TypeError on \<open>None\<close>, ValueError on text that is no float literal,
  OverflowError on an integer that rounds beyond the largest double.
\<close>

fun py_float :: "raw \<Rightarrow> py_error + pyfloat" where
  "py_float Absent = Inl TypeError"
| "py_float (Text s) = float_of_string s"
| "py_float (Whole i) =
     (if \<bar>i\<bar> < 2 ^ 1024 - 2 ^ 970 then Inr (Fin (real_of_int i)) else Inl OverflowError)"
| "py_float (Number x) = Inr x"
| "py_float (Flag b) = Inr (Fin (if b then 1 else 0))"

section \<open>The attribute utility functions\<close>

definition clip01 :: "pyfloat \<Rightarrow> pyfloat" where
  "clip01 x = py_max (Fin 0.0) (py_min (Fin 1.0) x)"

definition util_prog :: "(real \<Rightarrow> string) \<Rightarrow> raw \<Rightarrow> pyfloat" where
  "util_prog repr y_or_n =
     (let text = upper (strip (py_str repr y_or_n))
      in if text = ''Y'' then Fin 1.0
         else if text = ''N'' then Fin 0.6
         else Fin 0.6)"

definition util_location :: "(real \<Rightarrow> string) \<Rightarrow> raw \<Rightarrow> pyfloat" where
  "util_location repr loc =
     (let loc_s = strip (py_str repr loc)
      in if loc_s = ''Lindholmen'' then Fin 1.0
         else if loc_s = ''Johanneberg'' then Fin 0.8
         else if lower loc_s = ''online'' then Fin 0.9
         else Fin 0.9)"

definition util_format :: "(real \<Rightarrow> string) \<Rightarrow> raw \<Rightarrow> pyfloat" where
  "util_format repr fmt =
     (let fmt_s = lower (strip (py_str repr fmt))
      in if py_in ''lecture'' fmt_s then Fin 1.0
         else if py_in ''project'' fmt_s \<and> \<not> py_in ''lecture'' fmt_s then Fin 0.9
         else if py_in ''both'' fmt_s \<or> py_in ''bth'' fmt_s \<or> py_in ''mixed'' fmt_s
           then Fin 0.85
         else Fin 0.9)"

definition util_exam :: "(real \<Rightarrow> string) \<Rightarrow> raw \<Rightarrow> pyfloat" where
  "util_exam repr exam =
     (let exam_s = lower (strip (py_str repr exam))
      in if py_in ''proj'' exam_s then Fin 1.0
         else if py_in ''mix'' exam_s \<or> py_in ''both'' exam_s then Fin 0.8
         else if py_in ''written'' exam_s then Fin 0.7
         else Fin 0.8)"

definition util_cost :: "raw \<Rightarrow> pyfloat" where
  "util_cost v =
     (case py_float v of
        Inl e \<Rightarrow> Fin 0.5
      | Inr x \<Rightarrow> (let u = fdiv (fsub (Fin 5.0) x) 4.0 in clip01 u))"

definition util_benefit :: "raw \<Rightarrow> pyfloat" where
  "util_benefit v =
     (case py_float v of
        Inl e \<Rightarrow> Fin 0.5
      | Inr x \<Rightarrow> (let u = fdiv (fsub x (Fin 1.0)) 4.0 in clip01 u))"

definition util_group :: "raw \<Rightarrow> pyfloat" where
  "util_group v =
     (case py_float v of
        Inl e \<Rightarrow> Fin 0.5
      | Inr x \<Rightarrow> (let u = fsub (Fin 1.0) (fdiv (fabs (fsub x (Fin 3.0))) 2.0) in clip01 u))"

section \<open>Column names and weights\<close>

text \<open>
  The column labels are the literal strings of the source; the en dash of \<open>(1-5)\<close> is
  its three UTF-8 bytes.
\<close>

definition en_dash :: string where
  "en_dash = [CHR 0xE2, CHR 0x80, CHR 0x93]"

definition COL_PROG :: string where
  "COL_PROG = ''Programme recommended (Y/N)''"

definition COL_LOC :: string where
  "COL_LOC = ''Location (Johanneberg/Lindholmen/online)''"

definition COL_FMT :: string where
  "COL_FMT = ''Teaching format (lectures / proj)''"

definition COL_HARD :: string where
  "COL_HARD = ''Hardness (1'' @ en_dash @ ''5)''"

definition COL_WORK :: string where
  "COL_WORK = ''Workload (1'' @ en_dash @ ''5)''"

definition COL_INTEREST :: string where
  "COL_INTEREST = ''Interest / fun (1'' @ en_dash @ ''5)''"

definition COL_USEFUL :: string where
  "COL_USEFUL = ''Usefulness for career (1'' @ en_dash @ ''5)''"

definition COL_ALIGN :: string where
  "COL_ALIGN = ''Alignment with SE master (1'' @ en_dash @ ''5)''"

definition COL_EXAM :: string where
  "COL_EXAM = ''Exam type (written / proj / mixed)''"

definition COL_GROUP :: string where
  "COL_GROUP = ''Group work level (1'' @ en_dash @ ''5)''"

definition w_prog :: real where "w_prog = 0.10"
definition w_loc :: real where "w_loc = 0.05"
definition w_fmt :: real where "w_fmt = 0.05"
definition w_hard :: real where "w_hard = 0.10"
definition w_work :: real where "w_work = 0.10"
definition w_interest :: real where "w_interest = 0.20"
definition w_useful :: real where "w_useful = 0.20"
definition w_align :: real where "w_align = 0.15"
definition w_group :: real where "w_group = 0.05"
definition w_exam :: real where "w_exam = 0.00"

section \<open>The aggregator\<close>

text \<open>
  A row of the table maps column labels to cells. \<open>row.get(label)\<close> is \<open>None\<close> when the
  table has no such column.
\<close>

type_synonym row = "string \<rightharpoonup> raw"

definition row_get :: "row \<Rightarrow> string \<Rightarrow> raw" where
  "row_get row label = (case row label of None \<Rightarrow> Absent | Some v \<Rightarrow> v)"

text \<open>
  The score expression of \<open>compute_score\<close>, as a function of the ten utilities. Python
  adds the ten products from left to right.
\<close>

definition weighted_score ::
  "pyfloat \<Rightarrow> pyfloat \<Rightarrow> pyfloat \<Rightarrow> pyfloat \<Rightarrow> pyfloat \<Rightarrow> pyfloat \<Rightarrow> pyfloat \<Rightarrow> pyfloat
     \<Rightarrow> pyfloat \<Rightarrow> pyfloat \<Rightarrow> pyfloat" where
  "weighted_score u_prog u_loc u_fmt u_hard u_work u_inter u_useful u_align u_group u_exam =
     fmul (Fin 100.0)
       (fadd (fadd (fadd (fadd (fadd (fadd (fadd (fadd (fadd
          (fmul (Fin w_prog) u_prog)
          (fmul (Fin w_loc) u_loc))
          (fmul (Fin w_fmt) u_fmt))
          (fmul (Fin w_hard) u_hard))
          (fmul (Fin w_work) u_work))
          (fmul (Fin w_interest) u_inter))
          (fmul (Fin w_useful) u_useful))
          (fmul (Fin w_align) u_align))
          (fmul (Fin w_group) u_group))
          (fmul (Fin w_exam) u_exam))"

text \<open>The returned dictionary is an association list in the order of its literal.\<close>

definition compute_score :: "(real \<Rightarrow> string) \<Rightarrow> row \<Rightarrow> (string \<times> pyfloat) list" where
  "compute_score repr row =
     (let u_prog = util_prog repr (row_get row COL_PROG);
          u_loc = util_location repr (row_get row COL_LOC);
          u_fmt = util_format repr (row_get row COL_FMT);
          u_hard = util_cost (row_get row COL_HARD);
          u_work = util_cost (row_get row COL_WORK);
          u_inter = util_benefit (row_get row COL_INTEREST);
          u_useful = util_benefit (row_get row COL_USEFUL);
          u_align = util_benefit (row_get row COL_ALIGN);
          u_group = util_group (row_get row COL_GROUP);
          u_exam = util_exam repr (row_get row COL_EXAM);
          score = weighted_score u_prog u_loc u_fmt u_hard u_work u_inter u_useful u_align
                    u_group u_exam
      in [(''u_prog'', u_prog),
          (''u_loc'', u_loc),
          (''u_fmt'', u_fmt),
          (''u_hard'', u_hard),
          (''u_work'', u_work),
          (''u_interest'', u_inter),
          (''u_useful'', u_useful),
          (''u_align'', u_align),
          (''u_group'', u_group),
          (''u_exam'', u_exam),
          (''Score'', score)])"

section \<open>The attribute table of the specification\<close>

text \<open>
  The specification describes the aggregator by a fixed table of ten attribute
  specifications (output name, raw-field label, normalisation function, weight): the
  utilities are the functions applied to the row's fields, and the score is 100 times
  the sum of weight times utility. These definitions follow the specification's words;
  \<open>compute_score\<close> above follows the source.
\<close>

definition attribute_specs ::
  "(real \<Rightarrow> string) \<Rightarrow> (string \<times> string \<times> (raw \<Rightarrow> pyfloat) \<times> real) list" where
  "attribute_specs repr =
     [(''u_prog'', COL_PROG, util_prog repr, w_prog),
      (''u_loc'', COL_LOC, util_location repr, w_loc),
      (''u_fmt'', COL_FMT, util_format repr, w_fmt),
      (''u_hard'', COL_HARD, util_cost, w_hard),
      (''u_work'', COL_WORK, util_cost, w_work),
      (''u_interest'', COL_INTEREST, util_benefit, w_interest),
      (''u_useful'', COL_USEFUL, util_benefit, w_useful),
      (''u_align'', COL_ALIGN, util_benefit, w_align),
      (''u_group'', COL_GROUP, util_group, w_group),
      (''u_exam'', COL_EXAM, util_exam repr, w_exam)]"

definition spec_utilities :: "(real \<Rightarrow> string) \<Rightarrow> row \<Rightarrow> (string \<times> pyfloat) list" where
  "spec_utilities repr row =
     map (\<lambda>(name, label, f, w). (name, f (row_get row label))) (attribute_specs repr)"

definition spec_weights :: "(real \<Rightarrow> string) \<Rightarrow> real list" where
  "spec_weights repr = map (\<lambda>(name, label, f, w). w) (attribute_specs repr)"

section \<open>Basic facts\<close>

lemmas weight_defs = w_prog_def w_loc_def w_fmt_def w_hard_def w_work_def w_interest_def
  w_useful_def w_align_def w_group_def w_exam_def

lemmas column_defs = COL_PROG_def COL_LOC_def COL_FMT_def COL_HARD_def COL_WORK_def
  COL_INTEREST_def COL_USEFUL_def COL_ALIGN_def COL_GROUP_def COL_EXAM_def en_dash_def

lemmas string_defs = upper_def lower_def upper_char_def lower_char_def ascii_lowercase_def
  ascii_uppercase_def strip_def isspace_def

lemmas float_parse_defs = float_of_string_def parse_unsigned_def parse_decimal_def
  parse_exponent_def scale10_def float_space_def digit_or_underscore_def isdigit_def
  digits_value_def digit_value_def digit_chars_def lower_def lower_char_def
  ascii_lowercase_def ascii_uppercase_def

text \<open>
  \<open>clip01\<close> in closed form. On a finite number it is the usual clamp. NaN is sent to
  \<open>1.0\<close>: \<open>min(1.0, nan)\<close> keeps \<open>1.0\<close>, since \<open>nan < 1.0\<close> is false.
\<close>

lemma clip01_Fin: "clip01 (Fin a) = Fin (max 0 (min 1 a))"
  by (simp add: clip01_def py_max_def py_min_def max_def min_def)

lemma clip01_special: "clip01 PInf = Fin 1" "clip01 NInf = Fin 0" "clip01 NaN = Fin 1"
  by (simp_all add: clip01_def py_max_def py_min_def)

lemma clip01_unit: "\<exists>u. clip01 x = Fin u \<and> 0 \<le> u \<and> u \<le> 1"
  by (cases x) (simp_all add: clip01_Fin clip01_special)

lemma util_cost_unit: "\<exists>u. util_cost v = Fin u \<and> 0 \<le> u \<and> u \<le> 1"
proof (cases "py_float v")
  case (Inl e)
  then have "util_cost v = Fin 0.5"
    by (simp add: util_cost_def)
  then show ?thesis
    by (intro exI [of _ "0.5"]) simp
next
  case (Inr x)
  then have "util_cost v = clip01 (fdiv (fsub (Fin 5.0) x) 4.0)"
    by (simp add: util_cost_def)
  then show ?thesis
    using clip01_unit by simp
qed

lemma util_benefit_unit: "\<exists>u. util_benefit v = Fin u \<and> 0 \<le> u \<and> u \<le> 1"
proof (cases "py_float v")
  case (Inl e)
  then have "util_benefit v = Fin 0.5"
    by (simp add: util_benefit_def)
  then show ?thesis
    by (intro exI [of _ "0.5"]) simp
next
  case (Inr x)
  then have "util_benefit v = clip01 (fdiv (fsub x (Fin 1.0)) 4.0)"
    by (simp add: util_benefit_def)
  then show ?thesis
    using clip01_unit by simp
qed

lemma util_group_unit: "\<exists>u. util_group v = Fin u \<and> 0 \<le> u \<and> u \<le> 1"
proof (cases "py_float v")
  case (Inl e)
  then have "util_group v = Fin 0.5"
    by (simp add: util_group_def)
  then show ?thesis
    by (intro exI [of _ "0.5"]) simp
next
  case (Inr x)
  then have "util_group v = clip01 (fsub (Fin 1.0) (fdiv (fabs (fsub x (Fin 3.0))) 2.0))"
    by (simp add: util_group_def)
  then show ?thesis
    using clip01_unit by simp
qed

text \<open>The categorical utilities take two or three values each, whatever the text is.\<close>

lemma util_prog_cases: "util_prog repr v = Fin 1 \<or> util_prog repr v = Fin 0.6"
  by (simp add: util_prog_def Let_def)

lemma util_location_cases:
  "util_location repr v = Fin 1 \<or> util_location repr v = Fin 0.8
   \<or> util_location repr v = Fin 0.9"
  by (simp add: util_location_def Let_def)

lemma util_format_cases:
  "util_format repr v = Fin 1 \<or> util_format repr v = Fin 0.9
   \<or> util_format repr v = Fin 0.85"
  by (simp add: util_format_def Let_def)

lemma util_exam_cases:
  "util_exam repr v = Fin 1 \<or> util_exam repr v = Fin 0.8 \<or> util_exam repr v = Fin 0.7"
  by (simp add: util_exam_def Let_def)

lemma util_prog_bounds: "\<exists>u. util_prog repr v = Fin u \<and> 0.6 \<le> u \<and> u \<le> 1"
  using util_prog_cases [of repr v] by auto

lemma util_location_bounds: "\<exists>u. util_location repr v = Fin u \<and> 0.8 \<le> u \<and> u \<le> 1"
  using util_location_cases [of repr v] by auto

lemma util_format_bounds: "\<exists>u. util_format repr v = Fin u \<and> 0.85 \<le> u \<and> u \<le> 1"
  using util_format_cases [of repr v] by auto

lemma util_exam_bounds: "\<exists>u. util_exam repr v = Fin u \<and> 0.7 \<le> u \<and> u \<le> 1"
  using util_exam_cases [of repr v] by auto

text \<open>On finite utilities the score expression is plain real arithmetic.\<close>

lemma weighted_score_Fin:
  "weighted_score (Fin a) (Fin b) (Fin c) (Fin d) (Fin e) (Fin f) (Fin g) (Fin h) (Fin i) (Fin j)
   = Fin (100 * (w_prog * a + w_loc * b + w_fmt * c + w_hard * d + w_work * e
                 + w_interest * f + w_useful * g + w_align * h + w_group * i + w_exam * j))"
  by (simp add: weighted_score_def)

lemma score_lookup:
  "map_of (compute_score repr row) ''Score'' =
     Some (weighted_score (util_prog repr (row_get row COL_PROG))
        (util_location repr (row_get row COL_LOC))
        (util_format repr (row_get row COL_FMT))
        (util_cost (row_get row COL_HARD))
        (util_cost (row_get row COL_WORK))
        (util_benefit (row_get row COL_INTEREST))
        (util_benefit (row_get row COL_USEFUL))
        (util_benefit (row_get row COL_ALIGN))
        (util_group (row_get row COL_GROUP))
        (util_exam repr (row_get row COL_EXAM)))"
  by (simp add: compute_score_def Let_def)

lemma compute_score_utils:
  "compute_score repr row =
     spec_utilities repr row @
     [(''Score'', weighted_score (util_prog repr (row_get row COL_PROG))
        (util_location repr (row_get row COL_LOC))
        (util_format repr (row_get row COL_FMT))
        (util_cost (row_get row COL_HARD))
        (util_cost (row_get row COL_WORK))
        (util_benefit (row_get row COL_INTEREST))
        (util_benefit (row_get row COL_USEFUL))
        (util_benefit (row_get row COL_ALIGN))
        (util_group (row_get row COL_GROUP))
        (util_exam repr (row_get row COL_EXAM)))]"
  by (simp add: compute_score_def spec_utilities_def attribute_specs_def Let_def)

lemma score_bounds:
  "\<exists>s. map_of (compute_score repr row) ''Score'' = Some (Fin s) \<and> 14.25 \<le> s \<and> s \<le> 100"
proof -
  obtain a where a: "util_prog repr (row_get row COL_PROG) = Fin a" "0.6 \<le> a" "a \<le> 1"
    using util_prog_bounds by blast
  obtain b where b: "util_location repr (row_get row COL_LOC) = Fin b" "0.8 \<le> b" "b \<le> 1"
    using util_location_bounds by blast
  obtain c where c: "util_format repr (row_get row COL_FMT) = Fin c" "0.85 \<le> c" "c \<le> 1"
    using util_format_bounds by blast
  obtain d where d: "util_cost (row_get row COL_HARD) = Fin d" "0 \<le> d" "d \<le> 1"
    using util_cost_unit by blast
  obtain e where e: "util_cost (row_get row COL_WORK) = Fin e" "0 \<le> e" "e \<le> 1"
    using util_cost_unit by blast
  obtain f where f: "util_benefit (row_get row COL_INTEREST) = Fin f" "0 \<le> f" "f \<le> 1"
    using util_benefit_unit by blast
  obtain g where g: "util_benefit (row_get row COL_USEFUL) = Fin g" "0 \<le> g" "g \<le> 1"
    using util_benefit_unit by blast
  obtain h where h: "util_benefit (row_get row COL_ALIGN) = Fin h" "0 \<le> h" "h \<le> 1"
    using util_benefit_unit by blast
  obtain i where i: "util_group (row_get row COL_GROUP) = Fin i" "0 \<le> i" "i \<le> 1"
    using util_group_unit by blast
  obtain j where j: "util_exam repr (row_get row COL_EXAM) = Fin j" "0.7 \<le> j" "j \<le> 1"
    using util_exam_bounds by blast
  let ?s = "100 * (w_prog * a + w_loc * b + w_fmt * c + w_hard * d + w_work * e
                 + w_interest * f + w_useful * g + w_align * h + w_group * i + w_exam * j)"
  have "map_of (compute_score repr row) ''Score'' = Some (Fin ?s)"
    by (simp only: score_lookup a b c d e f g h i j weighted_score_Fin)
  moreover have "14.25 \<le> ?s"
    using a b c d e f g h i j by (simp add: weight_defs)
  moreover have "?s \<le> 100"
    using a b c d e f g h i j by (simp add: weight_defs)
  ultimately show ?thesis
    by blast
qed

section \<open>The aggregator computes the weighted sum\<close>

text \<open>
  Claim C1. For every row, \<open>compute_score\<close> returns the ten utilities under the names
  \<open>u_prog\<close>, \<open>u_loc\<close>, \<open>u_fmt\<close>, \<open>u_hard\<close>, \<open>u_work\<close>, \<open>u_interest\<close>, \<open>u_useful\<close>,
  \<open>u_align\<close>, \<open>u_group\<close>, \<open>u_exam\<close>, each being the attribute's utility function applied
  to the row's raw field (\<open>None\<close> when the field is missing), followed by \<open>Score\<close>, which
  is 100 times the sum over the ten attributes of weight times utility. All ten
  utilities are finite numbers, so the sum is a sum of reals.
\<close>

theorem compute_score_weighted_sum:
  "\<exists>us. map snd (spec_utilities repr row) = map Fin us
        \<and> compute_score repr row =
            spec_utilities repr row @
            [(''Score'', Fin (100 * (\<Sum>(w, u) \<leftarrow> zip (spec_weights repr) us. w * u)))]
        \<and> map fst (compute_score repr row) =
            [''u_prog'', ''u_loc'', ''u_fmt'', ''u_hard'', ''u_work'', ''u_interest'',
             ''u_useful'', ''u_align'', ''u_group'', ''u_exam'', ''Score'']"
proof -
  obtain a where a: "util_prog repr (row_get row COL_PROG) = Fin a"
    using util_prog_bounds by blast
  obtain b where b: "util_location repr (row_get row COL_LOC) = Fin b"
    using util_location_bounds by blast
  obtain c where c: "util_format repr (row_get row COL_FMT) = Fin c"
    using util_format_bounds by blast
  obtain d where d: "util_cost (row_get row COL_HARD) = Fin d"
    using util_cost_unit by blast
  obtain e where e: "util_cost (row_get row COL_WORK) = Fin e"
    using util_cost_unit by blast
  obtain f where f: "util_benefit (row_get row COL_INTEREST) = Fin f"
    using util_benefit_unit by blast
  obtain g where g: "util_benefit (row_get row COL_USEFUL) = Fin g"
    using util_benefit_unit by blast
  obtain h where h: "util_benefit (row_get row COL_ALIGN) = Fin h"
    using util_benefit_unit by blast
  obtain i where i: "util_group (row_get row COL_GROUP) = Fin i"
    using util_group_unit by blast
  obtain j where j: "util_exam repr (row_get row COL_EXAM) = Fin j"
    using util_exam_bounds by blast
  let ?us = "[a, b, c, d, e, f, g, h, i, j]"
  have 1: "map snd (spec_utilities repr row) = map Fin ?us"
    by (simp add: spec_utilities_def attribute_specs_def a b c d e f g h i j)
  have 2: "(\<Sum>(w, u) \<leftarrow> zip (spec_weights repr) ?us. w * u)
           = w_prog * a + w_loc * b + w_fmt * c + w_hard * d + w_work * e
             + w_interest * f + w_useful * g + w_align * h + w_group * i + w_exam * j"
    by (simp add: spec_weights_def attribute_specs_def)
  have 3: "compute_score repr row =
            spec_utilities repr row @
            [(''Score'', Fin (100 * (\<Sum>(w, u) \<leftarrow> zip (spec_weights repr) ?us. w * u)))]"
    unfolding 2 compute_score_utils
    by (simp only: a b c d e f g h i j weighted_score_Fin)
  have 4: "map fst (compute_score repr row) =
            [''u_prog'', ''u_loc'', ''u_fmt'', ''u_hard'', ''u_work'', ''u_interest'',
             ''u_useful'', ''u_align'', ''u_group'', ''u_exam'', ''Score'']"
    by (simp add: compute_score_def Let_def)
  show ?thesis
    by (rule exI [of _ ?us]) (intro conjI 1 3 4)
qed

section \<open>Ranges of the utilities and of the score\<close>

text \<open>
  Claim C2. For every input value (a number in or out of range, negative, an infinity
  or NaN, text that is or is not a number, a missing field), each of \<open>util_cost\<close>,
  \<open>util_benefit\<close> and \<open>util_group\<close> returns a finite utility \<open>u\<close> with \<open>0 \<le> u \<le> 1\<close>.
\<close>

theorem numeric_utilities_in_unit_interval:
  "(\<exists>u. util_cost v = Fin u \<and> 0 \<le> u \<and> u \<le> 1)
   \<and> (\<exists>u. util_benefit v = Fin u \<and> 0 \<le> u \<and> u \<le> 1)
   \<and> (\<exists>u. util_group v = Fin u \<and> 0 \<le> u \<and> u \<le> 1)"
  using util_cost_unit util_benefit_unit util_group_unit by blast

text \<open>
  Claim C3. For every row, the Score returned by \<open>compute_score\<close> is a finite number
  between 0 and 100; the ten weights are non-negative constants whose sum is 1.
\<close>

theorem score_in_0_100:
  "(\<exists>s. map_of (compute_score repr row) ''Score'' = Some (Fin s) \<and> 0 \<le> s \<and> s \<le> 100)
   \<and> 0 \<le> w_prog \<and> 0 \<le> w_loc \<and> 0 \<le> w_fmt \<and> 0 \<le> w_hard \<and> 0 \<le> w_work
   \<and> 0 \<le> w_interest \<and> 0 \<le> w_useful \<and> 0 \<le> w_align \<and> 0 \<le> w_group \<and> 0 \<le> w_exam
   \<and> w_prog + w_loc + w_fmt + w_hard + w_work + w_interest + w_useful + w_align
       + w_group + w_exam = 1"
proof -
  obtain s where "map_of (compute_score repr row) ''Score'' = Some (Fin s)"
    and "14.25 \<le> s" and "s \<le> 100"
    using score_bounds by blast
  then have "\<exists>s. map_of (compute_score repr row) ''Score'' = Some (Fin s) \<and> 0 \<le> s \<and> s \<le> 100"
    by (intro exI [of _ s]) simp
  then show ?thesis
    by (simp add: weight_defs)
qed

section \<open>Missing fields and empty cells\<close>

text \<open>
  On a missing column (\<open>row.get\<close> returns \<open>None\<close>) every utility function returns its
  neutral default: \<open>str(None)\<close> matches no keyword, and \<open>float(None)\<close> raises and is
  caught.
\<close>

lemma absent_defaults:
  "util_prog repr Absent = Fin 0.6"
  "util_location repr Absent = Fin 0.9"
  "util_format repr Absent = Fin 0.9"
  "util_exam repr Absent = Fin 0.8"
  "util_cost Absent = Fin 0.5"
  "util_benefit Absent = Fin 0.5"
  "util_group Absent = Fin 0.5"
  by (simp_all add: util_prog_def util_location_def util_format_def util_exam_def
      util_cost_def util_benefit_def util_group_def string_defs)

text \<open>
  Claim C4 says that every utility function returns its neutral default on a missing
  field value, 0.5 for \<open>util_cost\<close>, \<open>util_benefit\<close> and \<open>util_group\<close>. The code misses
  one case. The value of an empty cell is NaN, and NaN is no parse failure: \<open>float\<close>
  returns it, the linear map keeps it, and \<open>clip01\<close> turns it into \<open>1.0\<close>, because
  \<open>min(1.0, nan)\<close> keeps its first argument. So the three numeric functions return
  \<open>1.0\<close>, the best utility, on an empty cell, where they return 0.5 on a missing column
  and on text that is no number. A row whose Hardness cell is empty gets
  \<open>u_hard = 1.0\<close> and Score 60; the same row without the Hardness column gets
  \<open>u_hard = 0.5\<close> and Score 55.
\<close>

theorem empty_cell_numeric_utilities:
  "py_float (Number NaN) = Inr NaN
   \<and> util_cost (Number NaN) = Fin 1.0
   \<and> util_benefit (Number NaN) = Fin 1.0
   \<and> util_group (Number NaN) = Fin 1.0
   \<and> util_cost Absent = Fin 0.5
   \<and> util_cost (Text ''n/a'') = Fin 0.5
   \<and> map_of (compute_score repr [COL_HARD \<mapsto> Number NaN]) ''u_hard'' = Some (Fin 1.0)
   \<and> map_of (compute_score repr [COL_HARD \<mapsto> Number NaN]) ''Score'' = Some (Fin 60)
   \<and> map_of (compute_score repr Map.empty) ''u_hard'' = Some (Fin 0.5)
   \<and> map_of (compute_score repr Map.empty) ''Score'' = Some (Fin 55)"
proof -
  have nan: "util_cost (Number NaN) = Fin 1.0" "util_benefit (Number NaN) = Fin 1.0"
    "util_group (Number NaN) = Fin 1.0"
    by (simp_all add: util_cost_def util_benefit_def util_group_def clip01_special fsub_def)
  have no_number: "util_cost (Text ''n/a'') = Fin 0.5"
    by (simp add: util_cost_def float_parse_defs)
  have u1: "map_of (compute_score repr [COL_HARD \<mapsto> Number NaN]) ''u_hard'' = Some (Fin 1.0)"
    by (simp add: compute_score_def Let_def row_get_def nan)
  have u2: "map_of (compute_score repr Map.empty) ''u_hard'' = Some (Fin 0.5)"
    by (simp add: compute_score_def Let_def row_get_def absent_defaults)
  have s1: "map_of (compute_score repr [COL_HARD \<mapsto> Number NaN]) ''Score'' = Some (Fin 60)"
    by (simp add: score_lookup row_get_def column_defs absent_defaults nan
        weighted_score_Fin weight_defs)
  have s2: "map_of (compute_score repr Map.empty) ''Score'' = Some (Fin 55)"
    by (simp add: score_lookup row_get_def absent_defaults weighted_score_Fin weight_defs)
  show ?thesis
    by (simp only: nan no_number u1 u2 s1 s2 absent_defaults py_float.simps simp_thms)
qed

text \<open>The categorical functions see the text \<open>nan\<close> there and give their defaults.\<close>

lemma nan_cell_categorical:
  "util_prog repr (Number NaN) = Fin 0.6"
  "util_location repr (Number NaN) = Fin 0.9"
  "util_format repr (Number NaN) = Fin 0.9"
  "util_exam repr (Number NaN) = Fin 0.8"
  by (simp_all add: util_prog_def util_location_def util_format_def util_exam_def string_defs)

section \<open>The cost utility\<close>

lemma util_cost_examples:
  "util_cost (Whole 1) = Fin 1.0"
  "util_cost (Whole 5) = Fin 0.0"
  "util_cost (Whole 3) = Fin 0.5"
  "util_cost (Text ''x'') = Fin 0.5"
  "util_cost (Whole 6) = Fin 0.0"
  "util_cost (Whole 0) = Fin 1.0"
  by (simp_all add: util_cost_def clip01_Fin fsub_def float_parse_defs)

text \<open>
  Claim C5. \<open>util_cost\<close> returns 0.5 when \<open>float\<close> fails; on a parsed finite number
  \<open>x\<close> it returns \<open>(5 - x) / 4\<close> clamped to the unit interval after the linear map (an
  infinite \<open>x\<close> is clamped likewise). In particular \<open>util_cost(1) = 1.0\<close>,
  \<open>util_cost(5) = 0.0\<close>, \<open>util_cost(3) = 0.5\<close>, \<open>util_cost("x") = 0.5\<close>,
  \<open>util_cost(6) = 0.0\<close> and \<open>util_cost(0) = 1.0\<close>.
\<close>

theorem util_cost_linear_clipped:
  "(py_float v = Inl err \<longrightarrow> util_cost v = Fin 0.5)
   \<and> (py_float v = Inr (Fin x) \<longrightarrow> util_cost v = Fin (max 0 (min 1 ((5 - x) / 4))))
   \<and> (py_float v = Inr PInf \<longrightarrow> util_cost v = Fin 0)
   \<and> (py_float v = Inr NInf \<longrightarrow> util_cost v = Fin 1)
   \<and> util_cost (Whole 1) = Fin 1.0
   \<and> util_cost (Whole 5) = Fin 0.0
   \<and> util_cost (Whole 3) = Fin 0.5
   \<and> util_cost (Text ''x'') = Fin 0.5
   \<and> util_cost (Whole 6) = Fin 0.0
   \<and> util_cost (Whole 0) = Fin 1.0"
  by (simp add: util_cost_examples) (simp add: util_cost_def clip01_Fin clip01_special fsub_def)

theorem util_cost_linear_clipped_witness:
  "py_float (Text ''x'') = Inl ValueError \<and> util_cost (Text ''x'') = Fin 0.5
   \<and> py_float (Text '' 4.5 '') = Inr (Fin 4.5) \<and> util_cost (Text '' 4.5 '') = Fin 0.125
   \<and> py_float (Text ''inf'') = Inr PInf \<and> util_cost (Text ''inf'') = Fin 0
   \<and> py_float (Text ''-inf'') = Inr NInf \<and> util_cost (Text ''-inf'') = Fin 1"
proof -
  have 1: "py_float (Text ''x'') = Inl ValueError"
    by (simp add: float_parse_defs)
  have 2: "py_float (Text '' 4.5 '') = Inr (Fin 4.5)"
    by code_simp
  have 3: "py_float (Text ''inf'') = Inr PInf"
    by (simp add: float_parse_defs)
  have 4: "py_float (Text ''-inf'') = Inr NInf"
    by (simp add: float_parse_defs)
  have a: "util_cost (Text ''x'') = Fin 0.5"
    using util_cost_linear_clipped [of "Text ''x''" ValueError 0] 1 by blast
  have b: "util_cost (Text '' 4.5 '') = Fin (max 0 (min 1 ((5 - 4.5) / 4)))"
    using util_cost_linear_clipped [of "Text '' 4.5 ''" ValueError "4.5"] 2 by blast
  have c: "util_cost (Text ''inf'') = Fin 0"
    using util_cost_linear_clipped [of "Text ''inf''" ValueError 0] 3 by blast
  have d: "util_cost (Text ''-inf'') = Fin 1"
    using util_cost_linear_clipped [of "Text ''-inf''" ValueError 0] 4 by blast
  from b have b': "util_cost (Text '' 4.5 '') = Fin 0.125"
    by simp
  from 1 2 3 4 a b' c d show ?thesis
    by blast
qed

section \<open>Monotonicity of the score in the utilities\<close>




text \<open>
  The cost direction is that of the raw value: a harder course has the lower utility.
\<close>

lemma util_cost_antitone:
  "x \<le> y \<Longrightarrow> fle (util_cost (Number (Fin y))) (util_cost (Number (Fin x)))"
  by (auto simp add: util_cost_def clip01_Fin fsub_def max_def min_def)

text \<open>
  At the level of rows: a row with Hardness 1 has \<open>u_hard = 1.0\<close> and Score 60, the
  same row with Hardness 5 has \<open>u_hard = 0.0\<close> and Score 50.
\<close>

lemma hardness_rows_scores:
  "map_of (compute_score repr [COL_HARD \<mapsto> Whole 1]) ''u_hard'' = Some (Fin 1)"
  "map_of (compute_score repr [COL_HARD \<mapsto> Whole 1]) ''Score'' = Some (Fin 60)"
  "map_of (compute_score repr [COL_HARD \<mapsto> Whole 5]) ''u_hard'' = Some (Fin 0)"
  "map_of (compute_score repr [COL_HARD \<mapsto> Whole 5]) ''Score'' = Some (Fin 50)"
  by (simp_all add: compute_score_def Let_def score_lookup row_get_def column_defs
      absent_defaults util_cost_def clip01_Fin fsub_def weighted_score_Fin weight_defs)

section \<open>The exam weight is zero\<close>

lemma exam_column_distinct:
  "COL_PROG \<noteq> COL_EXAM" "COL_LOC \<noteq> COL_EXAM" "COL_FMT \<noteq> COL_EXAM" "COL_HARD \<noteq> COL_EXAM"
  "COL_WORK \<noteq> COL_EXAM" "COL_INTEREST \<noteq> COL_EXAM" "COL_USEFUL \<noteq> COL_EXAM"
  "COL_ALIGN \<noteq> COL_EXAM" "COL_GROUP \<noteq> COL_EXAM"
  by (simp_all add: column_defs)

lemma weighted_score_exam:
  "weighted_score (Fin a) (Fin b) (Fin c) (Fin d) (Fin e) (Fin f) (Fin g) (Fin h) (Fin i) (Fin j)
   = weighted_score (Fin a) (Fin b) (Fin c) (Fin d) (Fin e) (Fin f) (Fin g) (Fin h) (Fin i) (Fin j')"
  by (simp add: weighted_score_Fin w_exam_def)

text \<open>
  Claim C8. The exam-type weight is exactly 0, so two rows that agree on every raw
  field except the exam-type field get equal Scores, while \<open>u_exam\<close> is still computed
  from the exam field and emitted for both.
\<close>

theorem exam_has_no_influence:
  assumes "\<forall>label. label \<noteq> COL_EXAM \<longrightarrow> row label = row' label"
  shows "w_exam = 0
         \<and> map_of (compute_score repr row) ''Score'' = map_of (compute_score repr row') ''Score''
         \<and> map_of (compute_score repr row) ''u_exam'' = Some (util_exam repr (row_get row COL_EXAM))
         \<and> map_of (compute_score repr row') ''u_exam'' = Some (util_exam repr (row_get row' COL_EXAM))"
proof -
  have same: "row_get row label = row_get row' label" if "label \<noteq> COL_EXAM" for label
    using assms that by (simp add: row_get_def)
  obtain a where a: "util_prog repr (row_get row' COL_PROG) = Fin a"
    using util_prog_bounds by blast
  obtain b where b: "util_location repr (row_get row' COL_LOC) = Fin b"
    using util_location_bounds by blast
  obtain c where c: "util_format repr (row_get row' COL_FMT) = Fin c"
    using util_format_bounds by blast
  obtain d where d: "util_cost (row_get row' COL_HARD) = Fin d"
    using util_cost_unit by blast
  obtain e where e: "util_cost (row_get row' COL_WORK) = Fin e"
    using util_cost_unit by blast
  obtain f where f: "util_benefit (row_get row' COL_INTEREST) = Fin f"
    using util_benefit_unit by blast
  obtain g where g: "util_benefit (row_get row' COL_USEFUL) = Fin g"
    using util_benefit_unit by blast
  obtain h where h: "util_benefit (row_get row' COL_ALIGN) = Fin h"
    using util_benefit_unit by blast
  obtain i where i: "util_group (row_get row' COL_GROUP) = Fin i"
    using util_group_unit by blast
  obtain j where j: "util_exam repr (row_get row COL_EXAM) = Fin j"
    using util_exam_bounds by blast
  obtain j' where j': "util_exam repr (row_get row' COL_EXAM) = Fin j'"
    using util_exam_bounds by blast
  have "map_of (compute_score repr row) ''Score'' = map_of (compute_score repr row') ''Score''"
    unfolding score_lookup
    by (simp only: same [OF exam_column_distinct(1)] same [OF exam_column_distinct(2)]
        same [OF exam_column_distinct(3)] same [OF exam_column_distinct(4)]
        same [OF exam_column_distinct(5)] same [OF exam_column_distinct(6)]
        same [OF exam_column_distinct(7)] same [OF exam_column_distinct(8)]
        same [OF exam_column_distinct(9)] a b c d e f g h i j j'
        weighted_score_exam [of a b c d e f g h i j j'])
  moreover have "map_of (compute_score repr r) ''u_exam''
                 = Some (util_exam repr (row_get r COL_EXAM))" for r
    by (simp add: compute_score_def Let_def)
  ultimately show ?thesis
    by (simp add: w_exam_def)
qed

theorem exam_has_no_influence_witness:
  "map_of (compute_score (\<lambda>x. ''0.0'') [COL_PROG \<mapsto> Text ''Y'', COL_HARD \<mapsto> Whole 2,
              COL_EXAM \<mapsto> Text ''project'']) ''Score''
     = map_of (compute_score (\<lambda>x. ''0.0'') [COL_PROG \<mapsto> Text ''Y'', COL_HARD \<mapsto> Whole 2,
              COL_EXAM \<mapsto> Text ''written'']) ''Score''
   \<and> map_of (compute_score (\<lambda>x. ''0.0'') [COL_PROG \<mapsto> Text ''Y'', COL_HARD \<mapsto> Whole 2,
              COL_EXAM \<mapsto> Text ''project'']) ''u_exam'' = Some (Fin 1.0)
   \<and> map_of (compute_score (\<lambda>x. ''0.0'') [COL_PROG \<mapsto> Text ''Y'', COL_HARD \<mapsto> Whole 2,
              COL_EXAM \<mapsto> Text ''written'']) ''u_exam'' = Some (Fin 0.7)"
proof -
  let ?r = "[COL_PROG \<mapsto> Text ''Y'', COL_HARD \<mapsto> Whole 2, COL_EXAM \<mapsto> Text ''project'']"
  let ?r' = "[COL_PROG \<mapsto> Text ''Y'', COL_HARD \<mapsto> Whole 2, COL_EXAM \<mapsto> Text ''written'']"
  have agree: "\<forall>label. label \<noteq> COL_EXAM \<longrightarrow> ?r label = ?r' label"
    by simp
  have 1: "util_exam (\<lambda>x. ''0.0'') (row_get ?r COL_EXAM) = Fin 1.0"
    by (simp add: row_get_def util_exam_def string_defs)
  have 2: "util_exam (\<lambda>x. ''0.0'') (row_get ?r' COL_EXAM) = Fin 0.7"
    by (simp add: row_get_def util_exam_def string_defs)
  from exam_has_no_influence [OF agree, of "\<lambda>x. ''0.0''"] show ?thesis
    by (simp only: 1 2)
qed

section \<open>The lower end of the scale\<close>

text \<open>
  Claim C10. For every row the Score is at least 14.25, hence never 0: \<open>util_prog\<close>
  returns at least 0.6, \<open>util_location\<close> at least 0.8 and \<open>util_format\<close> at least 0.85
  on every input, and \<open>100 * (0.10 * 0.6 + 0.05 * 0.8 + 0.05 * 0.85) = 14.25\<close>.
\<close>

theorem score_at_least_14_25:
  "(\<exists>s. map_of (compute_score repr row) ''Score'' = Some (Fin s) \<and> 14.25 \<le> s \<and> 0 < s)
   \<and> (\<exists>u. util_prog repr v = Fin u \<and> 0.6 \<le> u)
   \<and> (\<exists>u. util_location repr v = Fin u \<and> 0.8 \<le> u)
   \<and> (\<exists>u. util_format repr v = Fin u \<and> 0.85 \<le> u)
   \<and> 100 * (w_prog * 0.6 + w_loc * 0.8 + w_fmt * 0.85) = 14.25"
proof -
  obtain s where s: "map_of (compute_score repr row) ''Score'' = Some (Fin s)" "14.25 \<le> s"
    using score_bounds by blast
  then have "\<exists>s. map_of (compute_score repr row) ''Score'' = Some (Fin s) \<and> 14.25 \<le> s \<and> 0 < s"
    by (intro exI [of _ s]) simp
  moreover have "\<exists>u. util_prog repr v = Fin u \<and> 0.6 \<le> u"
    using util_prog_bounds by blast
  moreover have "\<exists>u. util_location repr v = Fin u \<and> 0.8 \<le> u"
    using util_location_bounds by blast
  moreover have "\<exists>u. util_format repr v = Fin u \<and> 0.85 \<le> u"
    using util_format_bounds by blast
  moreover have "100 * (w_prog * 0.6 + w_loc * 0.8 + w_fmt * 0.85) = 14.25"
    by (simp add: weight_defs)
  ultimately show ?thesis
    by blast
qed

text \<open>The bound is attained, so it cannot be improved.\<close>

lemma score_14_25_attained:
  "map_of (compute_score repr
     [COL_PROG \<mapsto> Text ''N'', COL_LOC \<mapsto> Text ''Johanneberg'', COL_FMT \<mapsto> Text ''both'',
      COL_HARD \<mapsto> Whole 5, COL_WORK \<mapsto> Whole 5, COL_INTEREST \<mapsto> Whole 1,
      COL_USEFUL \<mapsto> Whole 1, COL_ALIGN \<mapsto> Whole 1, COL_GROUP \<mapsto> Whole 1]) ''Score''
   = Some (Fin 14.25)"
  by (simp add: score_lookup row_get_def column_defs util_prog_def util_location_def
      util_format_def util_exam_def util_cost_def util_benefit_def util_group_def string_defs
      clip01_Fin fsub_def weighted_score_Fin weight_defs)

end
